theory Spec2Isabelle
  imports Complex_Main
begin

section \<open>Managed-identity token acquisition (msal/imds.py)\<close>

text \<open>
  A shallow embedding of \<^verbatim>\<open>src/msal/imds.py\<close>: the scope-to-resource helper, the
  environment dispatch \<^verbatim>\<open>_obtain_token\<close>, the three backend adapters, and the
  cache-aside orchestrator \<^verbatim>\<open>ManagedIdentity.acquire_token\<close>.

  Python names that start with an underscore lose it (\<^verbatim>\<open>_obtain_token\<close> is
  \<open>obtain_token\<close>). Every raise of the source is an \<open>Inl\<close> result; every call to a
  collaborator (the logger, the transport, the token cache) is an event of a trace that
  each function returns next to its result.
\<close>

subsection \<open>Python values\<close>

text \<open>
  What \<^verbatim>\<open>json.loads\<close> returns: \<^verbatim>\<open>None\<close>, a bool, an int, a float, a str, a list
  or a dict. A dict is an association list read with \<open>map_of\<close>. Python floats are
  idealised as reals (no NaN, no infinities, no rounding).
\<close>

datatype json =
    JNull
  | JBool bool
  | JInt int
  | JFloat real
  | JStr string
  | JArr "json list"
  | JObj "(string \<times> json) list"

type_synonym dict = "(string \<times> json) list"

text \<open>
  The exceptions the module can let escape. \<^verbatim>\<open>json.JSONDecodeError\<close> is a subclass
  of \<^verbatim>\<open>ValueError\<close>: the adapters' \<^verbatim>\<open>except ValueError\<close> catches both, logs, and
  raises again. \<open>TransportError\<close> stands for whatever the injected HTTP client raises.
\<close>

datatype exn =
    JSONDecodeError
  | ValueError
  | KeyError string
  | TypeError
  | AttributeError
  | TransportError string

fun is_ValueError :: "exn \<Rightarrow> bool" where
  "is_ValueError JSONDecodeError = True"
| "is_ValueError ValueError = True"
| "is_ValueError _ = False"

text \<open>Truth value testing: \<^verbatim>\<open>bool(x)\<close>.\<close>

fun truthy :: "json \<Rightarrow> bool" where
  "truthy JNull = False"
| "truthy (JBool b) = b"
| "truthy (JInt n) = (n \<noteq> 0)"
| "truthy (JFloat x) = (x \<noteq> 0)"
| "truthy (JStr s) = (s \<noteq> [])"
| "truthy (JArr xs) = (xs \<noteq> [])"
| "truthy (JObj kvs) = (kvs \<noteq> [])"

text \<open>
  An optional string argument (\<^verbatim>\<open>client_id=None\<close>, \<^verbatim>\<open>resource=None\<close>): \<^verbatim>\<open>None\<close>
  and the empty string are both false.
\<close>

fun str_truthy :: "string option \<Rightarrow> bool" where
  "str_truthy None = False"
| "str_truthy (Some s) = (s \<noteq> [])"

text \<open>\<^verbatim>\<open>d.get(k)\<close>, \<^verbatim>\<open>d.get(k, default)\<close>, \<^verbatim>\<open>d[k]\<close> and \<^verbatim>\<open>k in d\<close>.\<close>

definition dict_get :: "dict \<Rightarrow> string \<Rightarrow> json" where
  "dict_get d k = (case map_of d k of None \<Rightarrow> JNull | Some v \<Rightarrow> v)"

definition dict_get_default :: "dict \<Rightarrow> string \<Rightarrow> json \<Rightarrow> json" where
  "dict_get_default d k dflt = (case map_of d k of None \<Rightarrow> dflt | Some v \<Rightarrow> v)"

definition dict_index :: "dict \<Rightarrow> string \<Rightarrow> exn + json" where
  "dict_index d k = (case map_of d k of None \<Rightarrow> Inl (KeyError k) | Some v \<Rightarrow> Inr v)"

definition has_key :: "dict \<Rightarrow> string \<Rightarrow> bool" where
  "has_key d k = (map_of d k \<noteq> None)"

text \<open>\<^verbatim>\<open>x[k]\<close> for a decoded JSON value \<open>x\<close> and a string key: only a dict can be
  indexed by a string.\<close>

fun json_index :: "json \<Rightarrow> string \<Rightarrow> exn + json" where
  "json_index (JObj d) k = dict_index d k"
| "json_index _ k = Inl TypeError"

subsection \<open>\<^verbatim>\<open>int(x)\<close> and \<^verbatim>\<open>str(x)\<close>\<close>

definition is_space :: "char \<Rightarrow> bool" where
  "is_space c = (c \<in> set [CHR '' '', CHR 0x09, CHR 0x0A, CHR 0x0B, CHR 0x0C, CHR 0x0D])"

definition strip :: "string \<Rightarrow> string" where
  "strip s = rev (dropWhile is_space (rev (dropWhile is_space s)))"

definition is_digit :: "char \<Rightarrow> bool" where
  "is_digit c = (48 \<le> (of_char c :: nat) \<and> (of_char c :: nat) \<le> 57)"

definition digit_val :: "char \<Rightarrow> nat" where
  "digit_val c = of_char c - 48"

text \<open>Decimal digits, a single underscore allowed between two digits. The flag says
  that the previous character was a digit.\<close>

fun digits_value :: "bool \<Rightarrow> nat \<Rightarrow> string \<Rightarrow> nat option" where
  "digits_value prev acc [] = (if prev then Some acc else None)"
| "digits_value prev acc (c # cs) =
     (if is_digit c then digits_value True (10 * acc + digit_val c) cs
      else if c = CHR ''_'' \<and> prev then digits_value False acc cs
      else None)"

text \<open>\<^verbatim>\<open>int(s)\<close> for a string (ASCII): surrounding whitespace, an optional sign, digits.\<close>

definition int_of_str :: "string \<Rightarrow> int option" where
  "int_of_str s =
     (case strip s of
        [] \<Rightarrow> None
      | c # cs \<Rightarrow>
          if c = CHR ''-'' then map_option (\<lambda>n. - int n) (digits_value False 0 cs)
          else if c = CHR ''+'' then map_option int (digits_value False 0 cs)
          else map_option int (digits_value False 0 (c # cs)))"

text \<open>\<^verbatim>\<open>int(x)\<close> for a float: truncation towards zero.\<close>

definition trunc :: "real \<Rightarrow> int" where
  "trunc x = (if 0 \<le> x then \<lfloor>x\<rfloor> else \<lceil>x\<rceil>)"

fun py_int :: "json \<Rightarrow> exn + int" where
  "py_int (JInt n) = Inr n"
| "py_int (JBool b) = Inr (if b then 1 else 0)"
| "py_int (JFloat x) = Inr (trunc x)"
| "py_int (JStr s) = (case int_of_str s of None \<Rightarrow> Inl ValueError | Some n \<Rightarrow> Inr n)"
| "py_int _ = Inl TypeError"

text \<open>\<^verbatim>\<open>x - n\<close> for a decoded JSON value \<open>x\<close> and an int \<open>n\<close>.\<close>

fun py_sub :: "json \<Rightarrow> int \<Rightarrow> exn + json" where
  "py_sub (JInt m) n = Inr (JInt (m - n))"
| "py_sub (JBool b) n = Inr (JInt ((if b then 1 else 0) - n))"
| "py_sub (JFloat x) n = Inr (JFloat (x - of_int n))"
| "py_sub _ n = Inl TypeError"

function string_of_nat :: "nat \<Rightarrow> string" where
  "string_of_nat n =
     (if n < 10 then [''0123456789'' ! n]
      else string_of_nat (n div 10) @ [''0123456789'' ! (n mod 10)])"
  by pat_completeness auto
termination
  by (relation "measure id") auto

declare string_of_nat.simps [simp del]

definition string_of_int :: "int \<Rightarrow> string" where
  "string_of_int i = (if i < 0 then CHR ''-'' # string_of_nat (nat (- i)) else string_of_nat (nat i))"

text \<open>
  \<^verbatim>\<open>str(x)\<close> as \<^verbatim>\<open>"{}".format(x)\<close> renders it. The text of a float, a list or a dict
  (\<^verbatim>\<open>repr\<close>) is not modelled: it is the parameter \<open>repr\<close>.
\<close>

fun py_str :: "(json \<Rightarrow> string) \<Rightarrow> json \<Rightarrow> string" where
  "py_str repr JNull = ''None''"
| "py_str repr (JBool b) = (if b then ''True'' else ''False'')"
| "py_str repr (JInt n) = string_of_int n"
| "py_str repr (JStr s) = s"
| "py_str repr v = repr v"

subsection \<open>The outside world and the trace of collaborator calls\<close>

text \<open>
  What a run reads from outside the module:
  \<^item> \<open>environ\<close>: \<^verbatim>\<open>os.environ\<close>;
  \<^item> \<open>json_loads\<close>: \<^verbatim>\<open>json.loads\<close>, \<open>None\<close> where it raises (a malformed body);
  \<^item> \<open>time_time\<close>: the value of the \<open>k\<close>-th call of \<^verbatim>\<open>time.time()\<close> in the run;
  \<^item> \<open>fqdn\<close>: \<^verbatim>\<open>socket.getfqdn()\<close>, read once for the class attribute
    \<^verbatim>\<open>_instance\<close>;
  \<^item> \<open>repr\<close>: the text Python prints for a float, a list or a dict;
  \<^item> \<open>urlparse\<close>: the standard library's \<^verbatim>\<open>urlparse\<close>, of whose result the
    module reads \<^verbatim>\<open>scheme\<close> and \<^verbatim>\<open>netloc\<close>; \<open>Inl\<close> where it raises.
\<close>

record parse_result =
  scheme :: string
  netloc :: string

record world =
  environ :: "string \<rightharpoonup> string"
  json_loads :: "string \<Rightarrow> json option"
  time_time :: "nat \<Rightarrow> real"
  fqdn :: string
  repr :: "json \<Rightarrow> string"
  urlparse :: "string \<Rightarrow> exn + parse_result"

text \<open>\<^verbatim>\<open>http_client.get(url, params=..., headers=...)\<close>.\<close>

record request =
  url :: string
  params :: "(string \<times> string) list"
  headers :: "(string \<times> string) list"

text \<open>The injected transport: the \<^verbatim>\<open>.text\<close> of the response, or what it raises.\<close>

type_synonym http_client = "request \<Rightarrow> exn + string"

text \<open>
  Modelled from the spec: the token cache (\<^verbatim>\<open>msal.TokenCache\<close>) is not among the
  sources. Section 6 gives the collaborator two operations, \<^verbatim>\<open>find\<close> and
  \<^verbatim>\<open>add\<close>; section 3 gives a Cache Entry the fields below (only those that
  \<^verbatim>\<open>acquire_token\<close> reads are kept: \<^verbatim>\<open>secret\<close>, \<^verbatim>\<open>token_type\<close>,
  \<^verbatim>\<open>expires_on\<close> in seconds since the epoch, and the optional \<^verbatim>\<open>refresh_on\<close>).
  The two instants are integers, so the \<^verbatim>\<open>int(...)\<close> that the code applies to them
  changes nothing, and a field that the code reads with \<^verbatim>\<open>entry[...]\<close> is always
  there. A cache is represented by what its \<^verbatim>\<open>find\<close> answers; its \<^verbatim>\<open>add\<close> is an
  event of the trace carrying the arguments of the call. A configured cache object is
  true in \<^verbatim>\<open>if self._token_cache\<close>; \<open>None\<close> is the cache that was not configured.
\<close>

record cache_entry =
  secret :: string
  token_type :: "string option"
  expires_on :: int
  refresh_on :: "int option"

datatype credential_type = ACCESS_TOKEN

record find_args =
  find_credential_type :: credential_type
  find_target :: "string list"
  find_client_id :: string
  find_environment :: string
  find_realm :: string
  find_home_account_id :: "string option"

record add_args =
  add_client_id :: string
  add_scope :: "string list"
  add_token_endpoint :: string
  add_response :: dict
  add_params :: dict
  add_data :: dict

type_synonym token_cache = "find_args \<Rightarrow> cache_entry list"

datatype event =
    LogDebug string
  | HttpGet request
  | CacheFind find_args
  | CacheAdd add_args



definition transport_calls :: "event list \<Rightarrow> request list" where
  "transport_calls tr = concat (map (\<lambda>e. case e of HttpGet r \<Rightarrow> [r] | _ \<Rightarrow> []) tr)"

definition cache_writes :: "event list \<Rightarrow> add_args list" where
  "cache_writes tr = concat (map (\<lambda>e. case e of CacheAdd a \<Rightarrow> [a] | _ \<Rightarrow> []) tr)"

text \<open>A computation: its result (or the exception it raised) and the events it
  caused, in order.\<close>

type_synonym 'a io = "(exn + 'a) \<times> event list"

definition after :: "event list \<Rightarrow> 'a io \<Rightarrow> 'a io" where
  "after pre m = (fst m, pre @ snd m)"

subsection \<open>\<^verbatim>\<open>_scope_to_resource\<close>\<close>

definition scope_to_resource :: "world \<Rightarrow> string \<Rightarrow> exn + string" where
  "scope_to_resource w scope =
     (case urlparse w scope of
        Inl e \<Rightarrow> Inl e
      | Inr u \<Rightarrow> if scheme u \<noteq> [] then Inr (scheme u @ ''://'' @ netloc u) else Inr scope)"

subsection \<open>The backend adapters\<close>

text \<open>\<^verbatim>\<open>if client_id: params["client_id"] = client_id\<close>, and the like.\<close>

definition opt_param :: "string \<Rightarrow> string option \<Rightarrow> (string \<times> string) list" where
  "opt_param k v = (case v of None \<Rightarrow> [] | Some s \<Rightarrow> if s \<noteq> [] then [(k, s)] else [])"

text \<open>
  The \<^verbatim>\<open>try\<close> block shared by the adapters: \<^verbatim>\<open>json.loads(resp.text)\<close>, then the
  adapter's own normalisation \<open>f\<close> of the payload. A \<^verbatim>\<open>ValueError\<close> is logged and
  raised again; any other exception passes the handler untouched.
\<close>

definition try_payload :: "world \<Rightarrow> string \<Rightarrow> (json \<Rightarrow> exn + dict) \<Rightarrow> dict io" where
  "try_payload w text f =
     (case (case json_loads w text of None \<Rightarrow> Inl JSONDecodeError | Some payload \<Rightarrow> f payload) of
        Inl e \<Rightarrow>
          (Inl e, if is_ValueError e then [LogDebug (''IMDS emits unexpected payload: '' @ text)]
                  else [])
      | Inr r \<Rightarrow> (Inr r, []))"

text \<open>\<^verbatim>\<open>payload.get\<close> exists only on a dict: any other JSON value raises
  \<^verbatim>\<open>AttributeError\<close>.\<close>

fun normalize_azure_vm :: "json \<Rightarrow> exn + dict" where
  "normalize_azure_vm (JObj payload) =
     (if truthy (dict_get payload ''access_token'') \<and> truthy (dict_get payload ''expires_in'')
      then (case py_int (dict_get payload ''expires_in'') of
              Inl e \<Rightarrow> Inl e
            | Inr n \<Rightarrow>
                Inr [(''access_token'', dict_get payload ''access_token''),
                     (''expires_in'', JInt n),
                     (''resource'', dict_get payload ''resource''),
                     (''token_type'', dict_get_default payload ''token_type'' (JStr ''Bearer''))])
      else Inr payload)"
| "normalize_azure_vm _ = Inl AttributeError"

definition obtain_token_on_azure_vm ::
  "world \<Rightarrow> http_client \<Rightarrow> string \<Rightarrow> string option \<Rightarrow> string option \<Rightarrow> string option \<Rightarrow> dict io"
where
  "obtain_token_on_azure_vm w http_client resource client_id object_id mi_res_id =
     (let req = \<lparr>url = ''http://169.254.169.254/metadata/identity/oauth2/token'',
                 params = [(''api-version'', ''2018-02-01''), (''resource'', resource)]
                   @ opt_param ''client_id'' client_id
                   @ opt_param ''object_id'' object_id
                   @ opt_param ''mi_res_id'' mi_res_id,
                 headers = [(''Metadata'', ''true'')]\<rparr>
      in after [LogDebug ''Obtaining token via managed identity on Azure VM'', HttpGet req]
           (case http_client req of
              Inl e \<Rightarrow> (Inl e, [])
            | Inr text \<Rightarrow> try_payload w text normalize_azure_vm))"

text \<open>The argument \<open>k\<close> of the next two adapters is the index of their
  \<^verbatim>\<open>time.time()\<close> call in the run.\<close>

fun normalize_app_service :: "world \<Rightarrow> nat \<Rightarrow> json \<Rightarrow> exn + dict" where
  "normalize_app_service w k (JObj payload) =
     (if truthy (dict_get payload ''access_token'') \<and> truthy (dict_get payload ''expires_on'')
      then (case py_int (dict_get payload ''expires_on'') of
              Inl e \<Rightarrow> Inl e
            | Inr n \<Rightarrow>
                Inr [(''access_token'', dict_get payload ''access_token''),
                     (''expires_in'', JInt (n - trunc (time_time w k))),
                     (''resource'', dict_get payload ''resource''),
                     (''token_type'', dict_get_default payload ''token_type'' (JStr ''Bearer''))])
      else Inr [(''error'', JStr ''invalid_scope''),
                (''error_description'',
                   JStr (py_str (repr w) (dict_get payload ''statusCode'') @ '', ''
                         @ py_str (repr w) (dict_get payload ''message'')))])"
| "normalize_app_service w k _ = Inl AttributeError"

definition obtain_token_on_app_service ::
  "world \<Rightarrow> nat \<Rightarrow> http_client \<Rightarrow> string \<Rightarrow> string \<Rightarrow> string
     \<Rightarrow> string option \<Rightarrow> string option \<Rightarrow> string option \<Rightarrow> dict io"
where
  "obtain_token_on_app_service w k http_client endpoint identity_header resource
       client_id object_id mi_res_id =
     (let req = \<lparr>url = endpoint,
                 params = [(''api-version'', ''2019-08-01''), (''resource'', resource)]
                   @ opt_param ''client_id'' client_id
                   @ opt_param ''object_id'' object_id
                   @ opt_param ''mi_res_id'' mi_res_id,
                 headers = [(''X-IDENTITY-HEADER'', identity_header), (''Metadata'', ''true'')]\<rparr>
      in after [LogDebug ''Obtaining token via managed identity on Azure App Service'',
                HttpGet req]
           (case http_client req of
              Inl e \<Rightarrow> (Inl e, [])
            | Inr text \<Rightarrow> try_payload w text (normalize_app_service w k)))"

definition error_mapping :: "(string \<times> string) list" where
  "error_mapping =
     [(''SecretHeaderNotFound'', ''unauthorized_client''),
      (''ManagedIdentityNotFound'', ''invalid_client''),
      (''ArgumentNullOrEmpty'', ''invalid_scope'')]"

text \<open>\<^verbatim>\<open>error_mapping.get(code, "invalid_request")\<close>: a list or a dict is not
  hashable; any other value that is not one of the three strings gets the default.\<close>

fun error_mapping_get :: "json \<Rightarrow> exn + string" where
  "error_mapping_get (JStr code) =
     Inr (case map_of error_mapping code of None \<Rightarrow> ''invalid_request'' | Some v \<Rightarrow> v)"
| "error_mapping_get (JArr xs) = Inl TypeError"
| "error_mapping_get (JObj kvs) = Inl TypeError"
| "error_mapping_get _ = Inr ''invalid_request''"

fun normalize_service_fabric :: "world \<Rightarrow> nat \<Rightarrow> string \<Rightarrow> json \<Rightarrow> exn + dict" where
  "normalize_service_fabric w k text (JObj payload) =
     (if truthy (dict_get payload ''access_token'') \<and> truthy (dict_get payload ''expires_on'')
      then (case py_sub (dict_get payload ''expires_on'') (trunc (time_time w k)) of
              Inl e \<Rightarrow> Inl e
            | Inr expires_in \<Rightarrow>
                (case dict_index payload ''token_type'' of
                   Inl e \<Rightarrow> Inl e
                 | Inr tt \<Rightarrow>
                     Inr [(''access_token'', dict_get payload ''access_token''),
                          (''expires_in'', expires_in),
                          (''resource'', dict_get payload ''resource''),
                          (''token_type'', tt)]))
      else (case dict_index payload ''error'' of
              Inl e \<Rightarrow> Inl e
            | Inr err \<Rightarrow>
                (case json_index err ''code'' of
                   Inl e \<Rightarrow> Inl e
                 | Inr code \<Rightarrow>
                     (case error_mapping_get code of
                        Inl e \<Rightarrow> Inl e
                      | Inr oauth2_error \<Rightarrow>
                          Inr [(''error'', JStr oauth2_error),
                               (''error_description'', JStr text)]))))"
| "normalize_service_fabric w k text _ = Inl AttributeError"

definition obtain_token_on_service_fabric ::
  "world \<Rightarrow> nat \<Rightarrow> http_client \<Rightarrow> string \<Rightarrow> string \<Rightarrow> string \<Rightarrow> string \<Rightarrow> dict io"
where
  "obtain_token_on_service_fabric w k http_client endpoint identity_header server_thumbprint
       resource =
     (let req = \<lparr>url = endpoint,
                 params = [(''api-version'', ''2019-07-01-preview''), (''resource'', resource)],
                 headers = [(''Secret'', identity_header)]\<rparr>
      in after [LogDebug ''Obtaining token via managed identity on Azure Service Fabric'',
                HttpGet req]
           (case http_client req of
              Inl e \<Rightarrow> (Inl e, [])
            | Inr text \<Rightarrow> try_payload w text (normalize_service_fabric w k text)))"

subsection \<open>\<^verbatim>\<open>_obtain_token\<close>: the dispatch on the process environment\<close>

definition ignoring_message :: string where
  "ignoring_message =
     ''Ignoring client_id/object_id/mi_res_id. ''
     @ ''Managed Identity in Service Fabric is configured in the cluster, ''
     @ ''not during runtime. See also ''
     @ ''https://learn.microsoft.com/en-us/azure/service-fabric/configure-existing-cluster-enable-managed-identity-token-service''"

text \<open>\<^verbatim>\<open>os.environ[name]\<close> after \<^verbatim>\<open>name in os.environ\<close> has been checked.\<close>

definition getenv :: "world \<Rightarrow> string \<Rightarrow> string" where
  "getenv w name = (case environ w name of None \<Rightarrow> [] | Some v \<Rightarrow> v)"

definition obtain_token ::
  "world \<Rightarrow> nat \<Rightarrow> http_client \<Rightarrow> string \<Rightarrow> string option \<Rightarrow> string option \<Rightarrow> string option
     \<Rightarrow> dict io"
where
  "obtain_token w k http_client resource client_id object_id mi_res_id =
     (if environ w ''IDENTITY_ENDPOINT'' \<noteq> None \<and> environ w ''IDENTITY_HEADER'' \<noteq> None
         \<and> environ w ''IDENTITY_SERVER_THUMBPRINT'' \<noteq> None
      then after (if str_truthy client_id \<or> str_truthy object_id \<or> str_truthy mi_res_id
                  then [LogDebug ignoring_message] else [])
             (obtain_token_on_service_fabric w k http_client
                (getenv w ''IDENTITY_ENDPOINT'') (getenv w ''IDENTITY_HEADER'')
                (getenv w ''IDENTITY_SERVER_THUMBPRINT'') resource)
      else if environ w ''IDENTITY_ENDPOINT'' \<noteq> None \<and> environ w ''IDENTITY_HEADER'' \<noteq> None
      then obtain_token_on_app_service w k http_client
             (getenv w ''IDENTITY_ENDPOINT'') (getenv w ''IDENTITY_HEADER'')
             resource client_id object_id mi_res_id
      else obtain_token_on_azure_vm w http_client resource client_id object_id mi_res_id)"

subsection \<open>\<^verbatim>\<open>ManagedIdentity\<close>\<close>

record managed_identity =
  self_http_client :: http_client
  self_client_id :: "string option"
  self_object_id :: "string option"
  self_mi_res_id :: "string option"
  self_token_cache :: "token_cache option"

text \<open>\<^verbatim>\<open>__init__\<close>. It calls no collaborator: its trace is empty on both paths.\<close>

definition ManagedIdentity_init ::
  "http_client \<Rightarrow> string option \<Rightarrow> string option \<Rightarrow> string option \<Rightarrow> token_cache option
     \<Rightarrow> managed_identity io"
where
  "ManagedIdentity_init http_client client_id object_id mi_res_id token_cache =
     (if length (filter str_truthy [client_id, object_id, mi_res_id]) > 1
      then (Inl ValueError, [])
      else (Inr \<lparr>self_http_client = http_client, self_client_id = client_id,
                 self_object_id = object_id, self_mi_res_id = mi_res_id,
                 self_token_cache = token_cache\<rparr>, []))"

text \<open>\<^verbatim>\<open>a or b\<close> for an optional string \<open>a\<close>.\<close>

definition str_or :: "string option \<Rightarrow> string \<Rightarrow> string" where
  "str_or a b = (case a of None \<Rightarrow> b | Some s \<Rightarrow> if s \<noteq> [] then s else b)"

definition client_id_in_cache :: "managed_identity \<Rightarrow> string" where
  "client_id_in_cache self =
     str_or (self_client_id self) (str_or (self_object_id self)
       (str_or (self_mi_res_id self) ''SYSTEM_ASSIGNED_MANAGED_IDENTITY''))"

definition tenant :: string where
  "tenant = ''managed_identity''"

text \<open>The arguments of \<^verbatim>\<open>self._token_cache.find(...)\<close>.\<close>

definition find_query :: "world \<Rightarrow> managed_identity \<Rightarrow> string \<Rightarrow> find_args" where
  "find_query w self resource =
     \<lparr>find_credential_type = ACCESS_TOKEN,
      find_target = [resource],
      find_client_id = client_id_in_cache self,
      find_environment = fqdn w,
      find_realm = tenant,
      find_home_account_id = None\<rparr>"

text \<open>The arguments of \<^verbatim>\<open>self._token_cache.add(dict(...))\<close>.\<close>

definition add_call :: "world \<Rightarrow> managed_identity \<Rightarrow> string \<Rightarrow> dict \<Rightarrow> add_args" where
  "add_call w self resource result =
     \<lparr>add_client_id = client_id_in_cache self,
      add_scope = [resource],
      add_token_endpoint = ''https://'' @ fqdn w @ ''/'' @ tenant,
      add_response = result,
      add_params = [],
      add_data = []\<rparr>"

text \<open>The dict that mimics a real response, built from a cache entry and its
  \<^verbatim>\<open>expires_in\<close>.\<close>

definition cached_response :: "real \<Rightarrow> cache_entry \<Rightarrow> dict" where
  "cached_response expires_in entry =
     [(''access_token'', JStr (secret entry)),
      (''token_type'', JStr (case token_type entry of None \<Rightarrow> ''Bearer'' | Some t \<Rightarrow> t)),
      (''expires_in'', JInt (trunc expires_in))]"

text \<open>
  The \<^verbatim>\<open>for entry in matches\<close> loop. It ends in one of two ways: the
  \<^verbatim>\<open>return\<close> inside the loop (\<open>Returned\<close>), or the loop is left, by
  \<^verbatim>\<open>break\<close> or at the end of the list, with the value that
  \<^verbatim>\<open>access_token_from_cache\<close> has then (\<open>Refresh\<close>).
\<close>

datatype scan_outcome = Returned dict | Refresh "dict option"

fun scan :: "real \<Rightarrow> cache_entry list \<Rightarrow> scan_outcome \<times> event list" where
  "scan now [] = (Refresh None, [])"
| "scan now (entry # matches) =
     (let expires_in = real_of_int (expires_on entry) - now in
      if expires_in < 5 * 60 then scan now matches
      else if (case refresh_on entry of None \<Rightarrow> False | Some r \<Rightarrow> real_of_int r < now)
      then (Refresh (Some (cached_response expires_in entry)), [LogDebug ''Cache hit an AT''])
      else (Returned (cached_response expires_in entry), [LogDebug ''Cache hit an AT'']))"

text \<open>
  Lines 233 to 251: the call of \<^verbatim>\<open>_obtain_token\<close>, the write-back and the final
  \<^verbatim>\<open>return access_token_from_cache or result\<close>. The dict built from a cache entry
  has three keys, so it is true whenever it is not \<^verbatim>\<open>None\<close>. \<open>k\<close> is the index of
  the adapter's \<^verbatim>\<open>time.time()\<close> call.
\<close>

definition refresh ::
  "world \<Rightarrow> nat \<Rightarrow> managed_identity \<Rightarrow> string \<Rightarrow> dict option \<Rightarrow> dict io"
where
  "refresh w k self resource access_token_from_cache =
     (case obtain_token w k (self_http_client self) resource
             (self_client_id self) (self_object_id self) (self_mi_res_id self) of
        (Inl e, tr) \<Rightarrow> (Inl e, tr)
      | (Inr result, tr) \<Rightarrow>
          if self_token_cache self \<noteq> None \<and> has_key result ''access_token''
          then (Inr result, tr @ [CacheAdd (add_call w self resource result)])
          else (Inr (case access_token_from_cache of None \<Rightarrow> result | Some t \<Rightarrow> t), tr))"

definition acquire_token :: "world \<Rightarrow> managed_identity \<Rightarrow> string option \<Rightarrow> dict io" where
  "acquire_token w self resource =
     (case resource of
        None \<Rightarrow> (Inl ValueError, [])
      | Some res \<Rightarrow>
          if res = [] then (Inl ValueError, [])
          else (case self_token_cache self of
                  None \<Rightarrow> refresh w 0 self res None
                | Some cache \<Rightarrow>
                    (let matches = cache (find_query w self res);
                         now = time_time w 0
                     in case scan now matches of
                          (Returned t, tr) \<Rightarrow> (Inr t, CacheFind (find_query w self res) # tr)
                        | (Refresh fallback, tr) \<Rightarrow>
                            after (CacheFind (find_query w self res) # tr)
                              (refresh w 1 self res fallback))))"

subsection \<open>The vocabulary of the specification\<close>

text \<open>
  The words the specification uses for a cache entry at the instant \<open>now\<close>:
  \<^emph>\<open>remaining\<close> is \<^verbatim>\<open>expires_on - now\<close>; an entry is past its hard expiry when
  fewer than 300 seconds remain; it is aging when it carries a \<^verbatim>\<open>refresh_on\<close>
  earlier than \<open>now\<close>.
\<close>

definition remaining :: "real \<Rightarrow> cache_entry \<Rightarrow> real" where
  "remaining now entry = real_of_int (expires_on entry) - now"

definition hard_expired :: "real \<Rightarrow> cache_entry \<Rightarrow> bool" where
  "hard_expired now entry = (remaining now entry < 300)"

definition aging :: "real \<Rightarrow> cache_entry \<Rightarrow> bool" where
  "aging now entry = (case refresh_on entry of None \<Rightarrow> False | Some r \<Rightarrow> real_of_int r < now)"

text \<open>The Environment Resolver of section 4.1, in the specification's words: the
  three backends and the priority among them.\<close>

datatype backend = ServiceFabric | AppService | IMDS

definition resolve_backend :: "(string \<rightharpoonup> string) \<Rightarrow> backend" where
  "resolve_backend env =
     (if env ''IDENTITY_ENDPOINT'' \<noteq> None \<and> env ''IDENTITY_HEADER'' \<noteq> None
         \<and> env ''IDENTITY_SERVER_THUMBPRINT'' \<noteq> None then ServiceFabric
      else if env ''IDENTITY_ENDPOINT'' \<noteq> None \<and> env ''IDENTITY_HEADER'' \<noteq> None
         \<and> env ''IDENTITY_SERVER_THUMBPRINT'' = None then AppService
      else IMDS)"

text \<open>The two shapes of the Canonical Token Response of section 3, by their keys.\<close>

definition success_record :: "dict \<Rightarrow> bool" where
  "success_record d =
     (map fst d = [''access_token'', ''expires_in'', ''resource'', ''token_type'']
      \<and> truthy (dict_get d ''access_token''))"

definition error_record :: "dict \<Rightarrow> bool" where
  "error_record d = (map fst d = [''error'', ''error_description''])"

definition canonical :: "dict \<Rightarrow> bool" where
  "canonical d =
     ((success_record d \<and> \<not> has_key d ''error'')
      \<or> (error_record d \<and> \<not> has_key d ''access_token''))"

text \<open>A Service Fabric payload carries a readable error code when
  \<^verbatim>\<open>payload["error"]["code"]\<close> exists and can be looked up in the mapping table.\<close>

definition has_error_code :: "dict \<Rightarrow> bool" where
  "has_error_code p =
     (case dict_index p ''error'' of
        Inl e \<Rightarrow> False
      | Inr err \<Rightarrow>
          (case json_index err ''code'' of
             Inl e \<Rightarrow> False
           | Inr code \<Rightarrow> (case error_mapping_get code of Inl e \<Rightarrow> False | Inr s \<Rightarrow> True)))"



subsection \<open>Concrete inputs\<close>

text \<open>Response bodies, and a \<^verbatim>\<open>json.loads\<close> that decodes exactly these.\<close>

definition body_token :: string where
  \<open>body_token = ''{"access_token":"T","expires_in":"3600"}''\<close>

definition body_sf_error :: string where
  \<open>body_sf_error = ''{"error":{"code":"ManagedIdentityNotFound"}}''\<close>

definition body_mixed :: string where
  \<open>body_mixed = ''{"error":"invalid_request","error_description":"d","access_token":"T"}''\<close>

definition example_bodies :: "(string \<times> json) list" where
  "example_bodies =
     [(body_token, JObj [(''access_token'', JStr ''T''), (''expires_in'', JStr ''3600'')]),
      (body_sf_error, JObj [(''error'', JObj [(''code'', JStr ''ManagedIdentityNotFound'')])]),
      (body_mixed, JObj [(''error'', JStr ''invalid_request''), (''error_description'', JStr ''d''),
                         (''access_token'', JStr ''T'')]),
      (''{}'', JObj [])]"

text \<open>What the standard library's \<^verbatim>\<open>urlparse\<close> answers at three inputs: it raises
  \<^verbatim>\<open>ValueError("Invalid IPv6 URL")\<close> for an opening bracket alone. At an input that
  is not listed the stand-in answers with an empty scheme and netloc.\<close>

definition example_urls :: "(string \<times> (exn + parse_result)) list" where
  "example_urls =
     [(''http://['', Inl ValueError),
      (''https://vault.azure.net/.default'',
         Inr \<lparr>scheme = ''https'', netloc = ''vault.azure.net''\<rparr>),
      (''User.Read'', Inr \<lparr>scheme = [], netloc = []\<rparr>)]"

definition example_urlparse :: "string \<Rightarrow> exn + parse_result" where
  "example_urlparse u =
     (case map_of example_urls u of None \<Rightarrow> Inr \<lparr>scheme = [], netloc = []\<rparr> | Some r \<Rightarrow> r)"

text \<open>A machine with no identity variables in its environment (the IMDS backend),
  whose clock reads 1000, 1001, ...\<close>

definition example_world :: world where
  "example_world =
     \<lparr>environ = Map.empty, json_loads = map_of example_bodies,
      time_time = (\<lambda>k. 1000 + real k), fqdn = ''vm1'', repr = (\<lambda>v. ''?''),
      urlparse = example_urlparse\<rparr>"

definition service_fabric_environ :: "string \<rightharpoonup> string" where
  "service_fabric_environ =
     [''IDENTITY_ENDPOINT'' \<mapsto> ''https://localhost:2377/token'', ''IDENTITY_HEADER'' \<mapsto> ''h'',
      ''IDENTITY_SERVER_THUMBPRINT'' \<mapsto> ''AB12'']"

text \<open>Cache entries seen at time 1000: 200 seconds left; 1000 seconds left and a
  \<^verbatim>\<open>refresh_on\<close> in the past; 4000 seconds left and no \<^verbatim>\<open>refresh_on\<close>.\<close>

definition entry_expired :: cache_entry where
  "entry_expired = \<lparr>secret = ''X'', token_type = None, expires_on = 1200, refresh_on = Some 100\<rparr>"

definition entry_aging :: cache_entry where
  "entry_aging = \<lparr>secret = ''A'', token_type = None, expires_on = 2000, refresh_on = Some 500\<rparr>"

definition entry_fresh :: cache_entry where
  "entry_fresh =
     \<lparr>secret = ''B'', token_type = Some ''Bearer'', expires_on = 5000, refresh_on = None\<rparr>"

text \<open>An orchestrator for the system-assigned identity whose transport answers every
  request with \<open>body\<close> and whose cache holds \<open>entries\<close>.\<close>

definition example_identity :: "string \<Rightarrow> cache_entry list \<Rightarrow> managed_identity" where
  "example_identity body entries =
     \<lparr>self_http_client = (\<lambda>req. Inr body), self_client_id = None, self_object_id = None,
      self_mi_res_id = None, self_token_cache = Some (\<lambda>q. entries)\<rparr>"

section \<open>Properties\<close>

subsection \<open>Traces\<close>

lemma transport_calls_Nil: "transport_calls [] = []"
  by (simp add: transport_calls_def)

lemma transport_calls_Cons:
  "transport_calls (e # tr) = (case e of HttpGet r \<Rightarrow> [r] | _ \<Rightarrow> []) @ transport_calls tr"
  by (simp add: transport_calls_def)

lemma transport_calls_append:
  "transport_calls (xs @ ys) = transport_calls xs @ transport_calls ys"
  by (simp add: transport_calls_def)

lemma cache_writes_Nil: "cache_writes [] = []"
  by (simp add: cache_writes_def)

lemma cache_writes_Cons:
  "cache_writes (e # tr) = (case e of CacheAdd a \<Rightarrow> [a] | _ \<Rightarrow> []) @ cache_writes tr"
  by (simp add: cache_writes_def)

lemma cache_writes_append:
  "cache_writes (xs @ ys) = cache_writes xs @ cache_writes ys"
  by (simp add: cache_writes_def)

lemmas trace_simps =
  transport_calls_Nil transport_calls_Cons transport_calls_append
  cache_writes_Nil cache_writes_Cons cache_writes_append

lemma fst_after: "fst (after pre m) = fst m"
  by (simp add: after_def)

lemma snd_after: "snd (after pre m) = pre @ snd m"
  by (simp add: after_def)

lemma try_payload_trace:
  "transport_calls (snd (try_payload w text f)) = []"
  "cache_writes (snd (try_payload w text f)) = []"
  by (auto simp: try_payload_def trace_simps split: sum.splits option.splits)

text \<open>Each adapter performs exactly one HTTP GET, the one written in its source, and
  touches no cache.\<close>

lemma azure_vm_trace:
  "transport_calls (snd (obtain_token_on_azure_vm w hc res c o' m)) =
     [\<lparr>url = ''http://169.254.169.254/metadata/identity/oauth2/token'',
       params = [(''api-version'', ''2018-02-01''), (''resource'', res)]
                @ opt_param ''client_id'' c @ opt_param ''object_id'' o'
                @ opt_param ''mi_res_id'' m,
       headers = [(''Metadata'', ''true'')]\<rparr>]"
  "cache_writes (snd (obtain_token_on_azure_vm w hc res c o' m)) = []"
  by (auto simp: obtain_token_on_azure_vm_def Let_def snd_after trace_simps try_payload_trace
      split: sum.splits)

lemma app_service_trace:
  "transport_calls (snd (obtain_token_on_app_service w k hc ep hdr res c o' m)) =
     [\<lparr>url = ep,
       params = [(''api-version'', ''2019-08-01''), (''resource'', res)]
                @ opt_param ''client_id'' c @ opt_param ''object_id'' o'
                @ opt_param ''mi_res_id'' m,
       headers = [(''X-IDENTITY-HEADER'', hdr), (''Metadata'', ''true'')]\<rparr>]"
  "cache_writes (snd (obtain_token_on_app_service w k hc ep hdr res c o' m)) = []"
  by (auto simp: obtain_token_on_app_service_def Let_def snd_after trace_simps try_payload_trace
      split: sum.splits)

lemma service_fabric_trace:
  "transport_calls (snd (obtain_token_on_service_fabric w k hc ep hdr tp res)) =
     [\<lparr>url = ep,
       params = [(''api-version'', ''2019-07-01-preview''), (''resource'', res)],
       headers = [(''Secret'', hdr)]\<rparr>]"
  "cache_writes (snd (obtain_token_on_service_fabric w k hc ep hdr tp res)) = []"
  by (auto simp: obtain_token_on_service_fabric_def Let_def snd_after trace_simps
      try_payload_trace split: sum.splits)

lemma obtain_token_one_call:
  "length (transport_calls (snd (obtain_token w k hc res c o' m))) = 1"
  by (simp add: obtain_token_def snd_after trace_simps azure_vm_trace app_service_trace
      service_fabric_trace)

lemma obtain_token_no_write:
  "cache_writes (snd (obtain_token w k hc res c o' m)) = []"
  by (simp add: obtain_token_def snd_after trace_simps azure_vm_trace app_service_trace
      service_fabric_trace)

lemma scan_trace:
  "transport_calls (snd (scan now ms)) = []" "cache_writes (snd (scan now ms)) = []"
  by (induction ms) (simp_all add: Let_def trace_simps)

text \<open>Entries past their hard expiry are passed over: they change neither the outcome
  of the scan nor its trace.\<close>

lemma scan_skip:
  "list_all (hard_expired now) pre \<Longrightarrow> scan now (pre @ rest) = scan now rest"
  by (induction pre) (simp_all add: hard_expired_def remaining_def)

lemma refresh_calls:
  "length (transport_calls (snd (refresh w k self res fb))) = 1"
  using obtain_token_one_call [of w k "self_http_client self" res "self_client_id self"
      "self_object_id self" "self_mi_res_id self"]
  by (auto simp: refresh_def trace_simps split: prod.splits sum.splits)


text \<open>The definitions a concrete run unfolds.\<close>

lemmas eval_defs = acquire_token_def refresh_def obtain_token_def obtain_token_on_azure_vm_def
  obtain_token_on_app_service_def obtain_token_on_service_fabric_def try_payload_def after_def
  example_world_def example_identity_def example_bodies_def body_token_def body_sf_error_def
  body_mixed_def entry_expired_def entry_aging_def entry_fresh_def find_query_def add_call_def
  client_id_in_cache_def str_or_def tenant_def cached_response_def trunc_def opt_param_def
  dict_get_def dict_get_default_def dict_index_def has_key_def int_of_str_def strip_def
  is_space_def is_digit_def digit_val_def getenv_def transport_calls_def cache_writes_def
  remaining_def hard_expired_def aging_def service_fabric_environ_def
  Let_def

subsection \<open>The scan of the cache\<close>

text \<open>The scan is decided by the first match that is not past its hard expiry.\<close>

lemma scan_first_live:
  assumes "list_all (hard_expired now) pre" "\<not> hard_expired now entry"
  shows "scan now (pre @ entry # rest) =
     (if aging now entry then Refresh (Some (cached_response (remaining now entry) entry))
      else Returned (cached_response (remaining now entry) entry), [LogDebug ''Cache hit an AT''])"
  using assms
  by (simp add: scan_skip) (simp add: hard_expired_def remaining_def aging_def Let_def)

text \<open>
  Claim C2 (fresh cache hit), as amended. When the first matching entry that is not past
  its hard expiry has at least 300 seconds remaining and is not aging (it has no
  \<^verbatim>\<open>refresh_on\<close>, or one that is not earlier than now), \<^verbatim>\<open>acquire_token\<close> returns
  the response built from that entry, whose \<^verbatim>\<open>access_token\<close> is the entry's secret;
  its whole trace is the \<^verbatim>\<open>find\<close> and one debug line, so it performs no transport
  call and no cache write.
\<close>

theorem fresh_cache_hit:
  assumes "res \<noteq> []" and "self_token_cache self = Some cache"
    and "cache (find_query w self res) = pre @ entry # rest"
    and "list_all (hard_expired (time_time w 0)) pre"
    and "300 \<le> remaining (time_time w 0) entry"
    and "\<not> aging (time_time w 0) entry"
  shows "acquire_token w self (Some res) =
           (Inr (cached_response (remaining (time_time w 0) entry) entry),
            [CacheFind (find_query w self res), LogDebug ''Cache hit an AT''])
       \<and> dict_get (cached_response (remaining (time_time w 0) entry) entry) ''access_token''
           = JStr (secret entry)
       \<and> transport_calls (snd (acquire_token w self (Some res))) = []
       \<and> cache_writes (snd (acquire_token w self (Some res))) = []"
proof -
  have live: "\<not> hard_expired (time_time w 0) entry"
    using assms(5) by (simp add: hard_expired_def)
  have run: "acquire_token w self (Some res) =
           (Inr (cached_response (remaining (time_time w 0) entry) entry),
            [CacheFind (find_query w self res), LogDebug ''Cache hit an AT''])"
    using assms(1,2,3,6) scan_first_live [OF assms(4) live, of rest]
    by (simp add: acquire_token_def)
  show ?thesis
    by (simp add: run trace_simps) (simp add: cached_response_def dict_get_def)
qed

text \<open>The theorem at a cache that holds an expired entry followed by a fresh one.\<close>

theorem fresh_cache_hit_witness:
  "acquire_token example_world (example_identity body_token [entry_expired, entry_fresh])
       (Some ''res'')
     = (Inr [(''access_token'', JStr ''B''), (''token_type'', JStr ''Bearer''),
             (''expires_in'', JInt 4000)],
        [CacheFind (find_query example_world
            (example_identity body_token [entry_expired, entry_fresh]) ''res''),
         LogDebug ''Cache hit an AT''])
   \<and> transport_calls (snd (acquire_token example_world
         (example_identity body_token [entry_expired, entry_fresh]) (Some ''res''))) = []
   \<and> cache_writes (snd (acquire_token example_world
         (example_identity body_token [entry_expired, entry_fresh]) (Some ''res''))) = []"
proof -
  have h1: "''res'' \<noteq> []" by simp
  have h2: "self_token_cache (example_identity body_token [entry_expired, entry_fresh])
      = Some (\<lambda>q. [entry_expired, entry_fresh])"
    by (simp add: example_identity_def)
  have h3: "(\<lambda>q. [entry_expired, entry_fresh])
      (find_query example_world (example_identity body_token [entry_expired, entry_fresh]) ''res'')
      = [entry_expired] @ entry_fresh # []"
    by simp
  have h4: "list_all (hard_expired (time_time example_world 0)) [entry_expired]"
    by (simp add: eval_defs)
  have h5: "300 \<le> remaining (time_time example_world 0) entry_fresh"
    by (simp add: eval_defs)
  have h6: "\<not> aging (time_time example_world 0) entry_fresh"
    by (simp add: eval_defs)
  have v: "cached_response (remaining (time_time example_world 0) entry_fresh) entry_fresh
      = [(''access_token'', JStr ''B''), (''token_type'', JStr ''Bearer''),
         (''expires_in'', JInt 4000)]"
    by (simp add: eval_defs)
  show ?thesis
    using fresh_cache_hit [OF h1 h2 h3 h4 h5 h6] by (simp add: v trace_simps)
qed

text \<open>
  Claim C2 as stated fails when an aging entry is scanned before the fresh one: the
  cache holds a matching entry with 4000 seconds remaining and no \<^verbatim>\<open>refresh_on\<close>,
  yet the scan stops at the aging entry, one transport call and one cache write are
  made, and the token returned is the backend's, not that entry's.
\<close>

theorem fresh_cache_hit_counterexample:
  "entry_fresh \<in> set [entry_aging, entry_fresh]
   \<and> self_token_cache (example_identity body_token [entry_aging, entry_fresh])
       = Some (\<lambda>q. [entry_aging, entry_fresh])
   \<and> 300 \<le> remaining (time_time example_world 0) entry_fresh
   \<and> refresh_on entry_fresh = None
   \<and> fst (acquire_token example_world (example_identity body_token [entry_aging, entry_fresh])
         (Some ''res''))
       = Inr [(''access_token'', JStr ''T''), (''expires_in'', JInt 3600),
              (''resource'', JNull), (''token_type'', JStr ''Bearer'')]
   \<and> length (transport_calls (snd (acquire_token example_world
         (example_identity body_token [entry_aging, entry_fresh]) (Some ''res'')))) = 1
   \<and> length (cache_writes (snd (acquire_token example_world
         (example_identity body_token [entry_aging, entry_fresh]) (Some ''res'')))) = 1"
  by (simp add: eval_defs)

subsection \<open>A backend answer without a token\<close>

lemma no_key_not_truthy: "\<not> has_key p k \<Longrightarrow> \<not> truthy (dict_get p k)"
  by (simp add: has_key_def dict_get_def)

text \<open>What each adapter makes of a body that decodes to a dict with no
  \<^verbatim>\<open>access_token\<close> key.\<close>

lemma azure_vm_without_token:
  assumes "\<forall>req. hc req = Inr text" "json_loads w text = Some (JObj p)"
    "\<not> has_key p ''access_token''"
  shows "fst (obtain_token_on_azure_vm w hc res c o' m) = Inr p"
  using assms no_key_not_truthy [OF assms(3)]
  by (simp add: obtain_token_on_azure_vm_def Let_def fst_after try_payload_def)

lemma app_service_without_token:
  assumes "\<forall>req. hc req = Inr text" "json_loads w text = Some (JObj p)"
    "\<not> has_key p ''access_token''"
  shows "fst (obtain_token_on_app_service w k hc ep hdr res c o' m) =
     Inr [(''error'', JStr ''invalid_scope''),
          (''error_description'',
             JStr (py_str (repr w) (dict_get p ''statusCode'') @ '', ''
                   @ py_str (repr w) (dict_get p ''message'')))]"
  using assms no_key_not_truthy [OF assms(3)]
  by (simp add: obtain_token_on_app_service_def Let_def fst_after try_payload_def)

lemma service_fabric_without_token:
  assumes "\<forall>req. hc req = Inr text" "json_loads w text = Some (JObj p)"
    "\<not> has_key p ''access_token''" "has_error_code p"
  shows "\<exists>s. fst (obtain_token_on_service_fabric w k hc ep hdr tp res) =
     Inr [(''error'', JStr s), (''error_description'', JStr text)]"
  using assms no_key_not_truthy [OF assms(3)]
  by (auto simp: obtain_token_on_service_fabric_def Let_def fst_after try_payload_def
      has_error_code_def split: sum.splits)

text \<open>\<^verbatim>\<open>_obtain_token\<close> calls the adapter of the backend that the Environment
  Resolver of the specification selects.\<close>

lemma obtain_token_by_backend:
  "obtain_token w k hc res c o' m =
     (case resolve_backend (environ w) of
        ServiceFabric \<Rightarrow>
          after (if str_truthy c \<or> str_truthy o' \<or> str_truthy m
                 then [LogDebug ignoring_message] else [])
            (obtain_token_on_service_fabric w k hc (getenv w ''IDENTITY_ENDPOINT'')
               (getenv w ''IDENTITY_HEADER'') (getenv w ''IDENTITY_SERVER_THUMBPRINT'') res)
      | AppService \<Rightarrow>
          obtain_token_on_app_service w k hc (getenv w ''IDENTITY_ENDPOINT'')
            (getenv w ''IDENTITY_HEADER'') res c o' m
      | IMDS \<Rightarrow> obtain_token_on_azure_vm w hc res c o' m)"
  by (simp add: obtain_token_def resolve_backend_def)

lemma obtain_token_without_token:
  assumes "\<forall>req. hc req = Inr text" "json_loads w text = Some (JObj p)"
    "\<not> has_key p ''access_token''"
    "resolve_backend (environ w) = ServiceFabric \<longrightarrow> has_error_code p"
  shows "\<exists>result. fst (obtain_token w k hc res c o' m) = Inr result
            \<and> \<not> has_key result ''access_token''"
proof (cases "resolve_backend (environ w)")
  case ServiceFabric
  with assms(4) have "has_error_code p" by simp
  from service_fabric_without_token [OF assms(1,2,3) this]
  obtain s where "fst (obtain_token_on_service_fabric w k hc (getenv w ''IDENTITY_ENDPOINT'')
      (getenv w ''IDENTITY_HEADER'') (getenv w ''IDENTITY_SERVER_THUMBPRINT'') res) =
     Inr [(''error'', JStr s), (''error_description'', JStr text)]"
    by blast
  then show ?thesis
    by (simp add: obtain_token_by_backend ServiceFabric fst_after has_key_def)
next
  case AppService
  then show ?thesis
    using app_service_without_token [OF assms(1,2,3)]
    by (simp add: obtain_token_by_backend has_key_def)
next
  case IMDS
  then show ?thesis
    using azure_vm_without_token [OF assms(1,2,3)] assms(3)
    by (simp add: obtain_token_by_backend)
qed

lemma refresh_fallback:
  assumes "fst (obtain_token w k (self_http_client self) res (self_client_id self)
             (self_object_id self) (self_mi_res_id self)) = Inr result"
    "\<not> has_key result ''access_token''"
  shows "fst (refresh w k self res (Some t)) = Inr t"
    "cache_writes (snd (refresh w k self res fb)) = []"
  using assms obtain_token_no_write [of w k "self_http_client self" res "self_client_id self"
      "self_object_id self" "self_mi_res_id self"]
  by (auto simp: refresh_def split: prod.splits sum.splits)

text \<open>
  Claim C1 (fallback law), as amended. When the first matching entry that is not past its
  hard expiry has at least 300 seconds remaining and a \<^verbatim>\<open>refresh_on\<close> earlier than
  now, \<^verbatim>\<open>acquire_token\<close> performs exactly one transport call. If the backend adapter
  then returns a record without an \<^verbatim>\<open>access_token\<close>, the response built from that
  entry is returned and nothing is written to the cache. This is the case, in particular,
  when the transport answers with a body that decodes to a dict without an
  \<^verbatim>\<open>access_token\<close> key (which, on Service Fabric, carries a readable error code).
\<close>

theorem fallback_law:
  assumes "res \<noteq> []" and "self_token_cache self = Some cache"
    and "cache (find_query w self res) = pre @ entry # rest"
    and "list_all (hard_expired (time_time w 0)) pre"
    and "300 \<le> remaining (time_time w 0) entry"
    and "aging (time_time w 0) entry"
  shows "length (transport_calls (snd (acquire_token w self (Some res)))) = 1
     \<and> (\<forall>result.
          fst (obtain_token w 1 (self_http_client self) res (self_client_id self)
                (self_object_id self) (self_mi_res_id self)) = Inr result
          \<and> \<not> has_key result ''access_token''
          \<longrightarrow> fst (acquire_token w self (Some res))
                = Inr (cached_response (remaining (time_time w 0) entry) entry)
              \<and> cache_writes (snd (acquire_token w self (Some res))) = [])
     \<and> (\<forall>text p.
          (\<forall>req. self_http_client self req = Inr text)
          \<and> json_loads w text = Some (JObj p) \<and> \<not> has_key p ''access_token''
          \<and> (resolve_backend (environ w) = ServiceFabric \<longrightarrow> has_error_code p)
          \<longrightarrow> fst (acquire_token w self (Some res))
                = Inr (cached_response (remaining (time_time w 0) entry) entry))"
proof -
  let ?fb = "cached_response (remaining (time_time w 0) entry) entry"
  have live: "\<not> hard_expired (time_time w 0) entry"
    using assms(5) by (simp add: hard_expired_def)
  have run: "acquire_token w self (Some res) =
      after [CacheFind (find_query w self res), LogDebug ''Cache hit an AT'']
        (refresh w 1 self res (Some ?fb))"
    using assms(1,2,3,6) scan_first_live [OF assms(4) live, of rest]
    by (simp add: acquire_token_def)
  have one: "length (transport_calls (snd (acquire_token w self (Some res)))) = 1"
    by (simp add: run snd_after trace_simps refresh_calls)
  have fall: "fst (acquire_token w self (Some res)) = Inr ?fb
      \<and> cache_writes (snd (acquire_token w self (Some res))) = []"
    if "fst (obtain_token w 1 (self_http_client self) res (self_client_id self)
                (self_object_id self) (self_mi_res_id self)) = Inr result"
      and "\<not> has_key result ''access_token''" for result
    using refresh_fallback [OF that] by (simp add: run fst_after snd_after trace_simps)
  have body: "fst (acquire_token w self (Some res)) = Inr ?fb"
    if "\<forall>req. self_http_client self req = Inr bdy" "json_loads w bdy = Some (JObj p)"
      "\<not> has_key p ''access_token''"
      "resolve_backend (environ w) = ServiceFabric \<longrightarrow> has_error_code p" for bdy p
    using obtain_token_without_token [OF that] fall by blast
  show ?thesis using one fall body by blast
qed


text \<open>The theorem at a cache that holds an expired entry followed by an aging one, on an
  Azure VM whose metadata service answers with an empty JSON object.\<close>

theorem fallback_law_witness:
  "length (transport_calls (snd (acquire_token example_world
       (example_identity ''{}'' [entry_expired, entry_aging]) (Some ''res'')))) = 1
   \<and> fst (acquire_token example_world
       (example_identity ''{}'' [entry_expired, entry_aging]) (Some ''res''))
     = Inr [(''access_token'', JStr ''A''), (''token_type'', JStr ''Bearer''),
            (''expires_in'', JInt 1000)]"
proof -
  let ?self = "example_identity ''{}'' [entry_expired, entry_aging]"
  have h1: "''res'' \<noteq> []" by simp
  have h2: "self_token_cache ?self = Some (\<lambda>q. [entry_expired, entry_aging])"
    by (simp add: example_identity_def)
  have h3: "(\<lambda>q. [entry_expired, entry_aging]) (find_query example_world ?self ''res'')
      = [entry_expired] @ entry_aging # []"
    by simp
  have h4: "list_all (hard_expired (time_time example_world 0)) [entry_expired]"
    by (simp add: eval_defs)
  have h5: "300 \<le> remaining (time_time example_world 0) entry_aging"
    by (simp add: eval_defs)
  have h6: "aging (time_time example_world 0) entry_aging"
    by (simp add: eval_defs)
  note law = fallback_law [OF h1 h2 h3 h4 h5 h6]
  have v: "cached_response (remaining (time_time example_world 0) entry_aging) entry_aging
      = [(''access_token'', JStr ''A''), (''token_type'', JStr ''Bearer''),
         (''expires_in'', JInt 1000)]"
    by (simp add: eval_defs)
  have body: "(\<forall>req. self_http_client ?self req = Inr ''{}'')
      \<and> json_loads example_world ''{}'' = Some (JObj [])
      \<and> \<not> has_key [] ''access_token''
      \<and> (resolve_backend (environ example_world) = ServiceFabric \<longrightarrow> has_error_code [])"
    by (simp add: eval_defs resolve_backend_def)
  from law [THEN conjunct2, THEN conjunct2, rule_format, OF body] law [THEN conjunct1]
  show ?thesis by (simp add: v)
qed

text \<open>
  Claim C1 as stated fails when a fresh entry that is not aging is scanned first: the
  cache holds a matching entry with 1000 seconds remaining and a \<^verbatim>\<open>refresh_on\<close> in
  the past, yet the scan returns the entry before it and no transport call is made.
\<close>

theorem fallback_law_counterexample:
  "entry_aging \<in> set [entry_fresh, entry_aging]
   \<and> self_token_cache (example_identity ''{}'' [entry_fresh, entry_aging])
       = Some (\<lambda>q. [entry_fresh, entry_aging])
   \<and> 300 \<le> remaining (time_time example_world 0) entry_aging
   \<and> aging (time_time example_world 0) entry_aging
   \<and> transport_calls (snd (acquire_token example_world
         (example_identity ''{}'' [entry_fresh, entry_aging]) (Some ''res''))) = []
   \<and> fst (acquire_token example_world (example_identity ''{}'' [entry_fresh, entry_aging])
         (Some ''res''))
       = Inr [(''access_token'', JStr ''B''), (''token_type'', JStr ''Bearer''),
              (''expires_in'', JInt 4000)]"
  by (simp add: eval_defs)

subsection \<open>The orchestrator\<close>

text \<open>A token that the scan produces is built from an entry with at least 300
  seconds remaining.\<close>

lemma scan_token_live:
  "fst (scan now ms) = Returned t \<or> fst (scan now ms) = Refresh (Some t) \<Longrightarrow>
     \<exists>e \<in> set ms. 300 \<le> remaining now e \<and> t = cached_response (remaining now e) e"
  by (induction ms) (auto simp: Let_def remaining_def split: if_splits)

lemma scan_all_expired:
  "list_all (hard_expired now) ms \<Longrightarrow> scan now ms = (Refresh None, [])"
  using scan_skip [of now ms "[]"] by simp

text \<open>What the refresh returns is the backend's answer or the fallback candidate.\<close>

lemma refresh_result:
  "fst (refresh w k self res fb) = Inr r \<Longrightarrow>
     fst (obtain_token w k (self_http_client self) res (self_client_id self)
           (self_object_id self) (self_mi_res_id self)) = Inr r \<or> fb = Some r"
  by (auto simp: refresh_def split: prod.splits sum.splits if_splits option.splits)









text \<open>How a run with a configured cache unfolds: the \<^verbatim>\<open>find\<close>, the scan, and then
  either the return from inside the loop or the refresh.\<close>

lemma acquire_token_with_cache:
  assumes "res \<noteq> []" "self_token_cache self = Some cache"
  shows "acquire_token w self (Some res) =
     (case fst (scan (time_time w 0) (cache (find_query w self res))) of
        Returned t \<Rightarrow>
          (Inr t, CacheFind (find_query w self res)
                  # snd (scan (time_time w 0) (cache (find_query w self res))))
      | Refresh fb \<Rightarrow>
          after (CacheFind (find_query w self res)
                 # snd (scan (time_time w 0) (cache (find_query w self res))))
            (refresh w 1 self res fb))"
  using assms by (simp add: acquire_token_def Let_def split: prod.splits scan_outcome.splits)


lemma acquire_token_invalid:
  "\<not> str_truthy resource \<Longrightarrow> acquire_token w self resource = (Inl ValueError, [])"
  by (cases resource) (simp_all add: acquire_token_def)

text \<open>
  Claim C3 (hard expiry). With a cache configured, whatever \<^verbatim>\<open>acquire_token\<close>
  returns is either the answer of the backend, obtained by a transport call, or the
  response built from a matching entry with at least 300 seconds remaining: an entry
  below that is never returned. Such entries are skipped by the scan: they change
  neither its outcome nor its trace, and the scan has no operation that removes one.
  When every matching entry is in that state, the run is the \<^verbatim>\<open>find\<close> followed by
  the refresh without a fallback candidate, which performs exactly one transport call;
  \<^verbatim>\<open>refresh_on\<close> plays no part.
\<close>

theorem hard_expiry:
  assumes "res \<noteq> []" and "self_token_cache self = Some cache"
  shows "(\<forall>r. fst (acquire_token w self (Some res)) = Inr r \<longrightarrow>
            (length (transport_calls (snd (acquire_token w self (Some res)))) = 1
             \<and> fst (obtain_token w 1 (self_http_client self) res (self_client_id self)
                     (self_object_id self) (self_mi_res_id self)) = Inr r)
            \<or> (\<exists>e \<in> set (cache (find_query w self res)).
                  300 \<le> remaining (time_time w 0) e
                  \<and> r = cached_response (remaining (time_time w 0) e) e))
     \<and> (\<forall>pre rest. list_all (hard_expired (time_time w 0)) pre \<longrightarrow>
            scan (time_time w 0) (pre @ rest) = scan (time_time w 0) rest)
     \<and> (list_all (hard_expired (time_time w 0)) (cache (find_query w self res)) \<longrightarrow>
            acquire_token w self (Some res)
              = after [CacheFind (find_query w self res)] (refresh w 1 self res None)
            \<and> length (transport_calls (snd (acquire_token w self (Some res)))) = 1)"
proof -
  let ?now = "time_time w 0"
  let ?ms = "cache (find_query w self res)"
  note run = acquire_token_with_cache [OF assms, of w]
  have origin: "(length (transport_calls (snd (acquire_token w self (Some res)))) = 1
             \<and> fst (obtain_token w 1 (self_http_client self) res (self_client_id self)
                     (self_object_id self) (self_mi_res_id self)) = Inr r)
            \<or> (\<exists>e \<in> set ?ms. 300 \<le> remaining ?now e \<and> r = cached_response (remaining ?now e) e)"
    if ok: "fst (acquire_token w self (Some res)) = Inr r" for r
  proof (cases "fst (scan ?now ?ms)")
    case (Returned t)
    with ok run have "r = t" by simp
    with Returned scan_token_live [of ?now ?ms t] show ?thesis by simp
  next
    case (Refresh fb)
    with run have eq: "acquire_token w self (Some res) =
        after (CacheFind (find_query w self res) # snd (scan ?now ?ms)) (refresh w 1 self res fb)"
      by simp
    then have one: "length (transport_calls (snd (acquire_token w self (Some res)))) = 1"
      by (simp add: snd_after trace_simps scan_trace refresh_calls)
    from eq ok have "fst (refresh w 1 self res fb) = Inr r" by (simp add: fst_after)
    from refresh_result [OF this] show ?thesis
    proof
      assume "fst (obtain_token w 1 (self_http_client self) res (self_client_id self)
           (self_object_id self) (self_mi_res_id self)) = Inr r"
      with one show ?thesis by simp
    next
      assume "fb = Some r"
      with Refresh scan_token_live [of ?now ?ms r] show ?thesis by simp
    qed
  qed
  have all_expired: "acquire_token w self (Some res)
              = after [CacheFind (find_query w self res)] (refresh w 1 self res None)
            \<and> length (transport_calls (snd (acquire_token w self (Some res)))) = 1"
    if "list_all (hard_expired ?now) ?ms"
    using run scan_all_expired [OF that]
    by (simp add: snd_after trace_simps refresh_calls)
  show ?thesis using origin all_expired scan_skip by blast
qed


text \<open>The theorem at a cache whose only entry has 200 seconds left and a
  \<^verbatim>\<open>refresh_on\<close> in the past.\<close>

theorem hard_expiry_witness:
  "list_all (hard_expired (time_time example_world 0)) [entry_expired]
   \<and> refresh_on entry_expired = Some 100
   \<and> acquire_token example_world (example_identity body_token [entry_expired]) (Some ''res'')
       = after [CacheFind (find_query example_world
                  (example_identity body_token [entry_expired]) ''res'')]
           (refresh example_world 1 (example_identity body_token [entry_expired]) ''res'' None)
   \<and> length (transport_calls (snd (acquire_token example_world
         (example_identity body_token [entry_expired]) (Some ''res'')))) = 1"
proof -
  let ?self = "example_identity body_token [entry_expired]"
  have h1: "''res'' \<noteq> []" by simp
  have h2: "self_token_cache ?self = Some (\<lambda>q. [entry_expired])"
    by (simp add: example_identity_def)
  have h3: "list_all (hard_expired (time_time example_world 0))
      ((\<lambda>q. [entry_expired]) (find_query example_world ?self ''res''))"
    by (simp add: eval_defs)
  have h4: "refresh_on entry_expired = Some 100"
    by (simp add: entry_expired_def)
  have h5: "list_all (hard_expired (time_time example_world 0)) [entry_expired]"
    using h3 by simp
  from hard_expiry [OF h1 h2, of example_world, THEN conjunct2, THEN conjunct2, THEN mp, OF h3]
    h5 h4
  show ?thesis by blast
qed












subsection \<open>A body that is not JSON\<close>







subsection \<open>The dispatch on the environment\<close>

text \<open>
  Claim C5 (Environment Resolver). For every process environment \<^verbatim>\<open>_obtain_token\<close>
  runs the adapter of exactly the backend that the resolver of section 4.1 selects:
  Service Fabric when the endpoint, header and thumbprint variables are all present,
  otherwise App Service when the endpoint and header variables are present, otherwise
  IMDS. Its only transport call is the one request of that adapter, so the selection
  itself makes none. When Service Fabric is selected, the request carries the API
  version and the resource only, the result does not depend on the identity descriptor,
  and a supplied descriptor is reported by a debug line, the first event of the run,
  not by an error.
\<close>

theorem environment_resolver:
  "obtain_token w k hc res c o' m =
     (case resolve_backend (environ w) of
        ServiceFabric \<Rightarrow>
          after (if str_truthy c \<or> str_truthy o' \<or> str_truthy m
                 then [LogDebug ignoring_message] else [])
            (obtain_token_on_service_fabric w k hc (getenv w ''IDENTITY_ENDPOINT'')
               (getenv w ''IDENTITY_HEADER'') (getenv w ''IDENTITY_SERVER_THUMBPRINT'') res)
      | AppService \<Rightarrow>
          obtain_token_on_app_service w k hc (getenv w ''IDENTITY_ENDPOINT'')
            (getenv w ''IDENTITY_HEADER'') res c o' m
      | IMDS \<Rightarrow> obtain_token_on_azure_vm w hc res c o' m)
   \<and> transport_calls (snd (obtain_token w k hc res c o' m)) =
     (case resolve_backend (environ w) of
        ServiceFabric \<Rightarrow>
          [\<lparr>url = getenv w ''IDENTITY_ENDPOINT'',
            params = [(''api-version'', ''2019-07-01-preview''), (''resource'', res)],
            headers = [(''Secret'', getenv w ''IDENTITY_HEADER'')]\<rparr>]
      | AppService \<Rightarrow>
          [\<lparr>url = getenv w ''IDENTITY_ENDPOINT'',
            params = [(''api-version'', ''2019-08-01''), (''resource'', res)]
                     @ opt_param ''client_id'' c @ opt_param ''object_id'' o'
                     @ opt_param ''mi_res_id'' m,
            headers = [(''X-IDENTITY-HEADER'', getenv w ''IDENTITY_HEADER''),
                       (''Metadata'', ''true'')]\<rparr>]
      | IMDS \<Rightarrow>
          [\<lparr>url = ''http://169.254.169.254/metadata/identity/oauth2/token'',
            params = [(''api-version'', ''2018-02-01''), (''resource'', res)]
                     @ opt_param ''client_id'' c @ opt_param ''object_id'' o'
                     @ opt_param ''mi_res_id'' m,
            headers = [(''Metadata'', ''true'')]\<rparr>])
   \<and> (resolve_backend (environ w) = ServiceFabric \<longrightarrow>
         fst (obtain_token w k hc res c o' m) = fst (obtain_token w k hc res None None None)
         \<and> (str_truthy c \<or> str_truthy o' \<or> str_truthy m \<longrightarrow>
              hd (snd (obtain_token w k hc res c o' m)) = LogDebug ignoring_message))"
proof -
  have calls: "transport_calls (snd (obtain_token w k hc res c o' m)) =
     (case resolve_backend (environ w) of
        ServiceFabric \<Rightarrow>
          [\<lparr>url = getenv w ''IDENTITY_ENDPOINT'',
            params = [(''api-version'', ''2019-07-01-preview''), (''resource'', res)],
            headers = [(''Secret'', getenv w ''IDENTITY_HEADER'')]\<rparr>]
      | AppService \<Rightarrow>
          [\<lparr>url = getenv w ''IDENTITY_ENDPOINT'',
            params = [(''api-version'', ''2019-08-01''), (''resource'', res)]
                     @ opt_param ''client_id'' c @ opt_param ''object_id'' o'
                     @ opt_param ''mi_res_id'' m,
            headers = [(''X-IDENTITY-HEADER'', getenv w ''IDENTITY_HEADER''),
                       (''Metadata'', ''true'')]\<rparr>]
      | IMDS \<Rightarrow>
          [\<lparr>url = ''http://169.254.169.254/metadata/identity/oauth2/token'',
            params = [(''api-version'', ''2018-02-01''), (''resource'', res)]
                     @ opt_param ''client_id'' c @ opt_param ''object_id'' o'
                     @ opt_param ''mi_res_id'' m,
            headers = [(''Metadata'', ''true'')]\<rparr>])"
    by (simp add: obtain_token_by_backend snd_after trace_simps azure_vm_trace
        app_service_trace service_fabric_trace split: backend.splits)
  have sf: "fst (obtain_token w k hc res c o' m) = fst (obtain_token w k hc res None None None)
         \<and> (str_truthy c \<or> str_truthy o' \<or> str_truthy m \<longrightarrow>
              hd (snd (obtain_token w k hc res c o' m)) = LogDebug ignoring_message)"
    if "resolve_backend (environ w) = ServiceFabric"
    using that by (simp add: obtain_token_by_backend fst_after snd_after)
  show ?thesis
    using obtain_token_by_backend [of w k hc res c o' m] calls sf by blast
qed

text \<open>The theorem in a Service Fabric environment, with a client id supplied.\<close>

theorem environment_resolver_witness:
  "resolve_backend service_fabric_environ = ServiceFabric
   \<and> transport_calls (snd (obtain_token (example_world\<lparr>environ := service_fabric_environ\<rparr>) 0
        (\<lambda>req. Inr body_sf_error) ''res'' (Some ''my-client-id'') None None))
     = [\<lparr>url = ''https://localhost:2377/token'',
         params = [(''api-version'', ''2019-07-01-preview''), (''resource'', ''res'')],
         headers = [(''Secret'', ''h'')]\<rparr>]
   \<and> hd (snd (obtain_token (example_world\<lparr>environ := service_fabric_environ\<rparr>) 0
        (\<lambda>req. Inr body_sf_error) ''res'' (Some ''my-client-id'') None None))
     = LogDebug ignoring_message"
proof -
  let ?w = "example_world\<lparr>environ := service_fabric_environ\<rparr>"
  have b: "resolve_backend (environ ?w) = ServiceFabric"
    by (simp add: resolve_backend_def service_fabric_environ_def)
  have g: "getenv ?w ''IDENTITY_ENDPOINT'' = ''https://localhost:2377/token''"
    "getenv ?w ''IDENTITY_HEADER'' = ''h''"
    by (simp_all add: getenv_def service_fabric_environ_def)
  note th = environment_resolver [of ?w 0 "\<lambda>req. Inr body_sf_error" "''res''"
      "Some ''my-client-id''" None None]
  from th [THEN conjunct2, THEN conjunct1] th [THEN conjunct2, THEN conjunct2, THEN mp, OF b] b
  show ?thesis by (simp add: g)
qed

subsection \<open>The shape of an adapter's answer\<close>

lemma try_payload_Inr:
  "fst (try_payload w text f) = Inr r \<Longrightarrow> \<exists>v. json_loads w text = Some v \<and> f v = Inr r"
  by (auto simp: try_payload_def split: option.splits sum.splits)

lemma app_service_canonical:
  "normalize_app_service w k v = Inr r \<Longrightarrow> canonical r"
  by (cases v)
    (auto simp: canonical_def success_record_def error_record_def has_key_def dict_get_def
      split: if_splits sum.splits)

lemma service_fabric_canonical:
  "normalize_service_fabric w k text v = Inr r \<Longrightarrow> canonical r"
  by (cases v)
    (auto simp: canonical_def success_record_def error_record_def has_key_def dict_get_def
      split: if_splits sum.splits)

lemma azure_vm_shape:
  "normalize_azure_vm v = Inr r \<Longrightarrow>
     (success_record r \<and> \<not> has_key r ''error'')
     \<or> (v = JObj r
        \<and> \<not> (truthy (dict_get r ''access_token'') \<and> truthy (dict_get r ''expires_in'')))"
  by (cases v)
    (auto simp: success_record_def has_key_def dict_get_def split: if_splits sum.splits)

lemma adapter_Inr:
  "fst (after pre (case hc req of Inl e \<Rightarrow> (Inl e, []) | Inr text \<Rightarrow> try_payload w text (f text)))
     = Inr r \<Longrightarrow> \<exists>text v. hc req = Inr text \<and> json_loads w text = Some v \<and> f text v = Inr r"
  by (auto simp: fst_after split: sum.splits dest: try_payload_Inr)

text \<open>The IMDS adapter, from the answer of the transport to its one request.\<close>

lemma azure_vm_by_payload:
  assumes "hc \<lparr>url = ''http://169.254.169.254/metadata/identity/oauth2/token'',
                params = [(''api-version'', ''2018-02-01''), (''resource'', res)]
                  @ opt_param ''client_id'' c @ opt_param ''object_id'' o'
                  @ opt_param ''mi_res_id'' m,
                headers = [(''Metadata'', ''true'')]\<rparr> = Inr bdy"
    and "json_loads w bdy = Some (JObj p)"
  shows "fst (obtain_token_on_azure_vm w hc res c o' m) =
     (if truthy (dict_get p ''access_token'') \<and> truthy (dict_get p ''expires_in'')
      then (case py_int (dict_get p ''expires_in'') of
              Inl e \<Rightarrow> Inl e
            | Inr n \<Rightarrow>
                Inr [(''access_token'', dict_get p ''access_token''),
                     (''expires_in'', JInt n),
                     (''resource'', dict_get p ''resource''),
                     (''token_type'', dict_get_default p ''token_type'' (JStr ''Bearer''))])
      else Inr p)"
  using assms
  by (simp add: obtain_token_on_azure_vm_def Let_def fst_after try_payload_def
      split: sum.splits)

lemma azure_vm_from_payload:
  assumes "fst (obtain_token_on_azure_vm w hc res c o' m) = Inr r"
  shows "\<exists>text p.
      hc \<lparr>url = ''http://169.254.169.254/metadata/identity/oauth2/token'',
          params = [(''api-version'', ''2018-02-01''), (''resource'', res)]
            @ opt_param ''client_id'' c @ opt_param ''object_id'' o'
            @ opt_param ''mi_res_id'' m,
          headers = [(''Metadata'', ''true'')]\<rparr> = Inr text
      \<and> json_loads w text = Some (JObj p)"
proof -
  let ?req = "\<lparr>url = ''http://169.254.169.254/metadata/identity/oauth2/token'',
          params = [(''api-version'', ''2018-02-01''), (''resource'', res)]
            @ opt_param ''client_id'' c @ opt_param ''object_id'' o'
            @ opt_param ''mi_res_id'' m,
          headers = [(''Metadata'', ''true'')]\<rparr>"
  from assms obtain bdy where b: "hc ?req = Inr bdy"
    and t: "fst (try_payload w bdy normalize_azure_vm) = Inr r"
    by (cases "hc ?req") (simp_all add: obtain_token_on_azure_vm_def Let_def fst_after)
  from try_payload_Inr [OF t] obtain v where v: "json_loads w bdy = Some v"
    "normalize_azure_vm v = Inr r"
    by blast
  from v(2) obtain p where "v = JObj p" by (cases v) simp_all
  with b v(1) show ?thesis by blast
qed

text \<open>
  Claim C6 (exclusivity of the Canonical Token Response), as amended. Whatever the App
  Service adapter or the Service Fabric adapter returns is exactly one of the two
  shapes: a success record with a non-empty \<^verbatim>\<open>access_token\<close> and no \<^verbatim>\<open>error\<close>,
  or an error record with the keys \<^verbatim>\<open>error\<close> and \<^verbatim>\<open>error_description\<close> and no
  \<^verbatim>\<open>access_token\<close>. The IMDS adapter returns a value only when the transport answers
  its request with a body that decodes to a dict. When that payload has a true
  \<^verbatim>\<open>access_token\<close> and a true \<^verbatim>\<open>expires_in\<close>, the adapter returns the success
  record built from it (or raises what \<^verbatim>\<open>int(expires_in)\<close> raises); otherwise it
  returns the decoded payload itself, unchanged, whatever its keys are.
\<close>

theorem canonical_response:
  "(\<forall>r. fst (obtain_token_on_app_service w k hc ep hdr res c o' m) = Inr r \<longrightarrow> canonical r)
   \<and> (\<forall>r. fst (obtain_token_on_service_fabric w k hc ep hdr tp res) = Inr r \<longrightarrow> canonical r)
   \<and> (\<forall>text p.
         hc \<lparr>url = ''http://169.254.169.254/metadata/identity/oauth2/token'',
             params = [(''api-version'', ''2018-02-01''), (''resource'', res)]
               @ opt_param ''client_id'' c @ opt_param ''object_id'' o'
               @ opt_param ''mi_res_id'' m,
             headers = [(''Metadata'', ''true'')]\<rparr> = Inr text
         \<and> json_loads w text = Some (JObj p) \<longrightarrow>
         (if truthy (dict_get p ''access_token'') \<and> truthy (dict_get p ''expires_in'')
          then fst (obtain_token_on_azure_vm w hc res c o' m) =
                 (case py_int (dict_get p ''expires_in'') of
                    Inl e \<Rightarrow> Inl e
                  | Inr n \<Rightarrow>
                      Inr [(''access_token'', dict_get p ''access_token''),
                           (''expires_in'', JInt n),
                           (''resource'', dict_get p ''resource''),
                           (''token_type'',
                              dict_get_default p ''token_type'' (JStr ''Bearer''))])
               \<and> (\<forall>r. fst (obtain_token_on_azure_vm w hc res c o' m) = Inr r \<longrightarrow>
                      success_record r \<and> \<not> has_key r ''error'')
          else fst (obtain_token_on_azure_vm w hc res c o' m) = Inr p))
   \<and> (\<forall>r. fst (obtain_token_on_azure_vm w hc res c o' m) = Inr r \<longrightarrow>
         (\<exists>text p.
            hc \<lparr>url = ''http://169.254.169.254/metadata/identity/oauth2/token'',
                params = [(''api-version'', ''2018-02-01''), (''resource'', res)]
                  @ opt_param ''client_id'' c @ opt_param ''object_id'' o'
                  @ opt_param ''mi_res_id'' m,
                headers = [(''Metadata'', ''true'')]\<rparr> = Inr text
            \<and> json_loads w text = Some (JObj p)))"
proof -
  have a: "\<forall>r. fst (obtain_token_on_app_service w k hc ep hdr res c o' m) = Inr r
      \<longrightarrow> canonical r"
    using adapter_Inr [where hc = hc and w = w and f = "\<lambda>text. normalize_app_service w k"]
    by (auto simp: obtain_token_on_app_service_def Let_def dest: app_service_canonical)
  have b: "\<forall>r. fst (obtain_token_on_service_fabric w k hc ep hdr tp res) = Inr r
      \<longrightarrow> canonical r"
    using adapter_Inr [where hc = hc and w = w and f = "normalize_service_fabric w k"]
    by (auto simp: obtain_token_on_service_fabric_def Let_def dest: service_fabric_canonical)
  have c: "\<forall>text p.
         hc \<lparr>url = ''http://169.254.169.254/metadata/identity/oauth2/token'',
             params = [(''api-version'', ''2018-02-01''), (''resource'', res)]
               @ opt_param ''client_id'' c @ opt_param ''object_id'' o'
               @ opt_param ''mi_res_id'' m,
             headers = [(''Metadata'', ''true'')]\<rparr> = Inr text
         \<and> json_loads w text = Some (JObj p) \<longrightarrow>
         (if truthy (dict_get p ''access_token'') \<and> truthy (dict_get p ''expires_in'')
          then fst (obtain_token_on_azure_vm w hc res c o' m) =
                 (case py_int (dict_get p ''expires_in'') of
                    Inl e \<Rightarrow> Inl e
                  | Inr n \<Rightarrow>
                      Inr [(''access_token'', dict_get p ''access_token''),
                           (''expires_in'', JInt n),
                           (''resource'', dict_get p ''resource''),
                           (''token_type'',
                              dict_get_default p ''token_type'' (JStr ''Bearer''))])
               \<and> (\<forall>r. fst (obtain_token_on_azure_vm w hc res c o' m) = Inr r \<longrightarrow>
                      success_record r \<and> \<not> has_key r ''error'')
          else fst (obtain_token_on_azure_vm w hc res c o' m) = Inr p)"
  proof (intro allI impI)
    fix bdy p
    assume h: "hc \<lparr>url = ''http://169.254.169.254/metadata/identity/oauth2/token'',
             params = [(''api-version'', ''2018-02-01''), (''resource'', res)]
               @ opt_param ''client_id'' c @ opt_param ''object_id'' o'
               @ opt_param ''mi_res_id'' m,
             headers = [(''Metadata'', ''true'')]\<rparr> = Inr bdy
         \<and> json_loads w bdy = Some (JObj p)"
    note eq = azure_vm_by_payload [where hc = hc and res = res and c = c and o' = o'
        and m = m and bdy = bdy and w = w and p = p, OF h [THEN conjunct1] h [THEN conjunct2]]
    show "if truthy (dict_get p ''access_token'') \<and> truthy (dict_get p ''expires_in'')
          then fst (obtain_token_on_azure_vm w hc res c o' m) =
                 (case py_int (dict_get p ''expires_in'') of
                    Inl e \<Rightarrow> Inl e
                  | Inr n \<Rightarrow>
                      Inr [(''access_token'', dict_get p ''access_token''),
                           (''expires_in'', JInt n),
                           (''resource'', dict_get p ''resource''),
                           (''token_type'',
                              dict_get_default p ''token_type'' (JStr ''Bearer''))])
               \<and> (\<forall>r. fst (obtain_token_on_azure_vm w hc res c o' m) = Inr r \<longrightarrow>
                      success_record r \<and> \<not> has_key r ''error'')
          else fst (obtain_token_on_azure_vm w hc res c o' m) = Inr p"
      by (auto simp: eq success_record_def has_key_def dict_get_def split: sum.splits)
  qed
  have d: "\<forall>r. fst (obtain_token_on_azure_vm w hc res c o' m) = Inr r \<longrightarrow>
         (\<exists>text p.
            hc \<lparr>url = ''http://169.254.169.254/metadata/identity/oauth2/token'',
                params = [(''api-version'', ''2018-02-01''), (''resource'', res)]
                  @ opt_param ''client_id'' c @ opt_param ''object_id'' o'
                  @ opt_param ''mi_res_id'' m,
                headers = [(''Metadata'', ''true'')]\<rparr> = Inr text
            \<and> json_loads w text = Some (JObj p))"
    using azure_vm_from_payload [of w hc res c o' m] by blast
  show ?thesis
    by (rule conjI [OF a conjI [OF b conjI [OF c d]]])
qed

text \<open>The theorem at the App Service adapter, for an empty JSON object, and at the IMDS
  adapter, for a token and for an empty JSON object.\<close>

theorem canonical_response_witness:
  "fst (obtain_token_on_app_service example_world 0 (\<lambda>req. Inr ''{}'')
          ''http://localhost:4141/token'' ''h'' ''res'' None None None)
     = Inr [(''error'', JStr ''invalid_scope''), (''error_description'', JStr ''None, None'')]
   \<and> canonical [(''error'', JStr ''invalid_scope''),
                 (''error_description'', JStr ''None, None'')]
   \<and> fst (obtain_token_on_azure_vm example_world (\<lambda>req. Inr body_token) ''res''
          None None None)
     = Inr [(''access_token'', JStr ''T''), (''expires_in'', JInt 3600),
            (''resource'', JNull), (''token_type'', JStr ''Bearer'')]
   \<and> success_record [(''access_token'', JStr ''T''), (''expires_in'', JInt 3600),
                      (''resource'', JNull), (''token_type'', JStr ''Bearer'')]
   \<and> fst (obtain_token_on_azure_vm example_world (\<lambda>req. Inr ''{}'') ''res''
          None None None) = Inr []"
proof -
  have h: "fst (obtain_token_on_app_service example_world 0 (\<lambda>req. Inr ''{}'')
          ''http://localhost:4141/token'' ''h'' ''res'' None None None)
     = Inr [(''error'', JStr ''invalid_scope''), (''error_description'', JStr ''None, None'')]"
    by (simp add: eval_defs)
  let ?req = "\<lparr>url = ''http://169.254.169.254/metadata/identity/oauth2/token'',
             params = [(''api-version'', ''2018-02-01''), (''resource'', ''res'')]
               @ opt_param ''client_id'' None @ opt_param ''object_id'' None
               @ opt_param ''mi_res_id'' None,
             headers = [(''Metadata'', ''true'')]\<rparr>"
  let ?p = "[(''access_token'', JStr ''T''), (''expires_in'', JStr ''3600'')]"
  have t: "(\<lambda>req. Inr body_token) ?req = (Inr body_token :: exn + string)
      \<and> json_loads example_world body_token = Some (JObj ?p)"
    by (simp add: eval_defs)
  have e: "(\<lambda>req. Inr ''{}'') ?req = (Inr ''{}'' :: exn + string)
      \<and> json_loads example_world ''{}'' = Some (JObj [])"
    by (simp add: eval_defs)
  note imds = canonical_response [THEN conjunct2, THEN conjunct2, THEN conjunct1, rule_format]
  from imds [where hc = "\<lambda>req. Inr body_token" and w = example_world and res = "''res''"
      and c = None and o' = None and m = None, OF t]
  have tok: "fst (obtain_token_on_azure_vm example_world (\<lambda>req. Inr body_token) ''res''
          None None None)
     = Inr [(''access_token'', JStr ''T''), (''expires_in'', JInt 3600),
            (''resource'', JNull), (''token_type'', JStr ''Bearer'')]
     \<and> success_record [(''access_token'', JStr ''T''), (''expires_in'', JInt 3600),
                      (''resource'', JNull), (''token_type'', JStr ''Bearer'')]"
    by (simp add: dict_get_def dict_get_default_def int_of_str_def strip_def is_space_def
        is_digit_def digit_val_def)
  from imds [where hc = "\<lambda>req. Inr ''{}''" and w = example_world and res = "''res''"
      and c = None and o' = None and m = None, OF e]
  have emp: "fst (obtain_token_on_azure_vm example_world (\<lambda>req. Inr ''{}'') ''res''
          None None None) = Inr []"
    by (simp add: dict_get_def)
  from canonical_response [THEN conjunct1, rule_format, OF h] h tok emp
  show ?thesis by simp
qed

text \<open>
  Claim C6 as stated fails for the IMDS adapter: a payload with \<^verbatim>\<open>error\<close>,
  \<^verbatim>\<open>error_description\<close> and \<^verbatim>\<open>access_token\<close> but no \<^verbatim>\<open>expires_in\<close> is returned
  as it is, an error record that carries an access token; and an empty JSON object is
  returned as it is, a record of neither shape.
\<close>

theorem canonical_response_counterexample:
  "fst (obtain_token_on_azure_vm example_world (\<lambda>req. Inr body_mixed) ''res'' None None None)
     = Inr [(''error'', JStr ''invalid_request''), (''error_description'', JStr ''d''),
            (''access_token'', JStr ''T'')]
   \<and> has_key [(''error'', JStr ''invalid_request''), (''error_description'', JStr ''d''),
              (''access_token'', JStr ''T'')] ''error''
   \<and> has_key [(''error'', JStr ''invalid_request''), (''error_description'', JStr ''d''),
              (''access_token'', JStr ''T'')] ''access_token''
   \<and> \<not> canonical [(''error'', JStr ''invalid_request''), (''error_description'', JStr ''d''),
                   (''access_token'', JStr ''T'')]
   \<and> fst (obtain_token_on_azure_vm example_world (\<lambda>req. Inr ''{}'') ''res'' None None None)
       = Inr []
   \<and> \<not> canonical []"
  by (simp add: eval_defs canonical_def success_record_def error_record_def)

subsection \<open>Service Fabric errors\<close>

text \<open>
  Claim C7 (Service Fabric error normalization) at a payload the claim covers and the
  code does not: the body \<^verbatim>\<open>{}\<close> decodes to a dict that lacks an
  \<^verbatim>\<open>access_token\<close>, and the adapter raises \<^verbatim>\<open>KeyError('error')\<close> from
  \<^verbatim>\<open>payload["error"]["code"]\<close> instead of returning an error record. The source
  computes \<^verbatim>\<open>error = payload.get("error", {})\<close> on the line before and never uses
  it.
\<close>

theorem service_fabric_missing_error_code:
  "obtain_token_on_service_fabric example_world 0 (\<lambda>req. Inr ''{}'')
       ''https://localhost:2377/token'' ''h'' ''AB12'' ''res''
     = (Inl (KeyError ''error''),
        [LogDebug ''Obtaining token via managed identity on Azure Service Fabric'',
         HttpGet \<lparr>url = ''https://localhost:2377/token'',
                  params = [(''api-version'', ''2019-07-01-preview''), (''resource'', ''res'')],
                  headers = [(''Secret'', ''h'')]\<rparr>])"
  by (simp add: eval_defs)

text \<open>
  When the payload does carry \<^verbatim>\<open>error.code\<close> as a string, the adapter returns an
  error record: the code mapped through the table, with \<^verbatim>\<open>invalid_request\<close> for any
  other code, and the raw body as the description.
\<close>

theorem service_fabric_error_normalization:
  assumes "hc \<lparr>url = ep, params = [(''api-version'', ''2019-07-01-preview''), (''resource'', res)],
                headers = [(''Secret'', hdr)]\<rparr> = Inr text"
    and "json_loads w text = Some (JObj p)"
    and "\<not> truthy (dict_get p ''access_token'')"
    and "map_of p ''error'' = Some (JObj err)" and "map_of err ''code'' = Some (JStr code)"
  shows "fst (obtain_token_on_service_fabric w k hc ep hdr tp res) =
     Inr [(''error'',
           JStr (if code = ''SecretHeaderNotFound'' then ''unauthorized_client''
                 else if code = ''ManagedIdentityNotFound'' then ''invalid_client''
                 else if code = ''ArgumentNullOrEmpty'' then ''invalid_scope''
                 else ''invalid_request'')),
          (''error_description'', JStr text)]"
  using assms
  by (simp add: obtain_token_on_service_fabric_def Let_def fst_after try_payload_def
      dict_index_def error_mapping_def)

text \<open>The scenario of the specification: \<^verbatim>\<open>ManagedIdentityNotFound\<close> becomes
  \<^verbatim>\<open>invalid_client\<close>.\<close>

theorem service_fabric_error_normalization_witness:
  "fst (obtain_token_on_service_fabric example_world 0 (\<lambda>req. Inr body_sf_error)
          ''https://localhost:2377/token'' ''h'' ''AB12'' ''res'')
     = Inr [(''error'', JStr ''invalid_client''), (''error_description'', JStr body_sf_error)]"
proof -
  have h1: "(\<lambda>req. Inr body_sf_error)
      \<lparr>url = ''https://localhost:2377/token'',
       params = [(''api-version'', ''2019-07-01-preview''), (''resource'', ''res'')],
       headers = [(''Secret'', ''h'')]\<rparr> = (Inr body_sf_error :: exn + string)"
    by simp
  have h2: "json_loads example_world body_sf_error
      = Some (JObj [(''error'', JObj [(''code'', JStr ''ManagedIdentityNotFound'')])])"
    by (simp add: eval_defs)
  have h3: "\<not> truthy (dict_get [(''error'', JObj [(''code'', JStr ''ManagedIdentityNotFound'')])]
      ''access_token'')"
    by (simp add: dict_get_def)
  have h4: "map_of [(''error'', JObj [(''code'', JStr ''ManagedIdentityNotFound'')])] ''error''
      = Some (JObj [(''code'', JStr ''ManagedIdentityNotFound'')])"
    by simp
  have h5: "map_of [(''code'', JStr ''ManagedIdentityNotFound'')] ''code''
      = Some (JStr ''ManagedIdentityNotFound'')"
    by simp
  from service_fabric_error_normalization [where hc = "\<lambda>req. Inr body_sf_error"
      and ep = "''https://localhost:2377/token''" and hdr = "''h''" and res = "''res''"
      and k = 0 and tp = "''AB12''", OF h1 h2 h3 h4 h5]
  show ?thesis by simp
qed

subsection \<open>Invalid arguments\<close>

text \<open>
  Claim C8 (invalid arguments fail before any I/O). When more than one of
  \<^verbatim>\<open>client_id\<close>, \<^verbatim>\<open>object_id\<close> and \<^verbatim>\<open>mi_res_id\<close> is set (a non-empty string; the
  code treats the empty string as it treats \<^verbatim>\<open>None\<close>), the constructor raises
  \<^verbatim>\<open>ValueError\<close> and its trace is empty. When the resource is absent or empty,
  \<^verbatim>\<open>acquire_token\<close> raises \<^verbatim>\<open>ValueError\<close> and its trace is empty: no cache
  call, no transport call.
\<close>

theorem invalid_arguments:
  "((str_truthy c \<and> str_truthy o') \<or> (str_truthy c \<and> str_truthy m)
      \<or> (str_truthy o' \<and> str_truthy m)
      \<longrightarrow> ManagedIdentity_init hc c o' m cache = (Inl ValueError, []))
   \<and> (\<not> str_truthy resource \<longrightarrow> acquire_token w self resource = (Inl ValueError, []))"
  by (auto simp: ManagedIdentity_init_def acquire_token_invalid)

text \<open>The theorem for a client id together with a resource id, for an absent
  resource and for an empty one.\<close>

theorem invalid_arguments_witness:
  "ManagedIdentity_init (\<lambda>req. Inr body_token) (Some ''a'') None (Some ''/subscriptions/s'')
       (Some (\<lambda>q. [entry_fresh]))
     = (Inl ValueError, [])
   \<and> acquire_token example_world (example_identity body_token [entry_fresh]) None
       = (Inl ValueError, [])
   \<and> acquire_token example_world (example_identity body_token [entry_fresh]) (Some [])
       = (Inl ValueError, [])"
proof -
  have h1: "(str_truthy (Some ''a'') \<and> str_truthy None)
      \<or> (str_truthy (Some ''a'') \<and> str_truthy (Some ''/subscriptions/s''))
      \<or> (str_truthy None \<and> str_truthy (Some ''/subscriptions/s''))"
    by simp
  have h2: "\<not> str_truthy None" "\<not> str_truthy (Some [])"
    by simp_all
  from invalid_arguments [THEN conjunct1, THEN mp, OF h1]
    invalid_arguments [THEN conjunct2, THEN mp, OF h2(1)]
    invalid_arguments [THEN conjunct2, THEN mp, OF h2(2)]
  show ?thesis by blast
qed

subsection \<open>The scope-to-resource mapper\<close>

text \<open>
  Claim C9 (scope-to-resource mapper), as amended. \<^verbatim>\<open>_scope_to_resource\<close> has no
  handler around \<^verbatim>\<open>urlparse\<close>: whatever \<^verbatim>\<open>urlparse\<close> raises for the input, it
  raises. Whenever \<^verbatim>\<open>urlparse\<close> returns, the result is \<^verbatim>\<open>scheme://netloc\<close> if the
  scheme is not empty and the input unchanged otherwise.
\<close>

theorem scope_to_resource_cases:
  "(\<forall>e. urlparse w s = Inl e \<longrightarrow> scope_to_resource w s = Inl e)
   \<and> (\<forall>u. urlparse w s = Inr u \<longrightarrow>
         scope_to_resource w s
           = (if scheme u \<noteq> [] then Inr (scheme u @ ''://'' @ netloc u) else Inr s))"
  by (simp add: scope_to_resource_def)

text \<open>The theorem at a URL-shaped scope and at a scope without a scheme.\<close>

theorem scope_to_resource_cases_witness:
  "scope_to_resource example_world ''https://vault.azure.net/.default''
     = Inr ''https://vault.azure.net''
   \<and> scope_to_resource example_world ''User.Read'' = Inr ''User.Read''"
proof -
  have h1: "urlparse example_world ''https://vault.azure.net/.default''
     = Inr \<lparr>scheme = ''https'', netloc = ''vault.azure.net''\<rparr>"
    by (simp add: example_world_def example_urlparse_def example_urls_def)
  have h2: "urlparse example_world ''User.Read'' = Inr \<lparr>scheme = [], netloc = []\<rparr>"
    by (simp add: example_world_def example_urlparse_def example_urls_def)
  from scope_to_resource_cases [THEN conjunct2, rule_format, OF h1]
    scope_to_resource_cases [THEN conjunct2, rule_format, OF h2]
  show ?thesis by simp
qed

text \<open>Claim C9 as stated fails: for an input with an opening bracket alone in its
  netloc \<^verbatim>\<open>urlparse\<close> raises \<^verbatim>\<open>ValueError\<close>, and \<^verbatim>\<open>_scope_to_resource\<close> raises
  it too instead of returning the input unchanged.\<close>

theorem scope_to_resource_counterexample:
  "urlparse example_world ''http://['' = Inl ValueError
   \<and> scope_to_resource example_world ''http://['' = Inl ValueError
   \<and> scope_to_resource example_world ''http://['' \<noteq> Inr ''http://[''"
  by (simp add: scope_to_resource_def example_world_def example_urlparse_def example_urls_def)

end
